theory Spec2Isabelle
  imports Main "HOL-Library.AList"
begin

section \<open>Python values, exceptions and the driver boundary\<close>

text \<open>
  The program is \<^verbatim>\<open>src/app.py\<close>: a class \<^verbatim>\<open>SQLServerConnection\<close> over the pyodbc
  driver and a Streamlit shell around it. The driver is not part of the repository, so it
  is a parameter of the model: a record of functions giving, for each driver call the code
  makes, either the exception the call raises or the value it returns. Every operation of
  the model also returns the list of driver calls it made, in order.
\<close>

text \<open>
  The values a row or a parameter can hold: \<^verbatim>\<open>None\<close>, an \<^verbatim>\<open>int\<close> and a \<^verbatim>\<open>str\<close>, as the
  driver returns them for NULL, integer and character columns. A data frame can also
  hold what pandas makes of them: \<^verbatim>\<open>float(n)\<close> for an integer \<^verbatim>\<open>n\<close>, and \<^verbatim>\<open>NaN\<close>.
\<close>

datatype pyval = PyNone | PyInt int | PyStr string | PyFloatOfInt int | PyNaN

text \<open>
  The two exception classes the handlers of the code tell apart, each carrying
  \<^verbatim>\<open>str(e)\<close>: \<^verbatim>\<open>pyodbc.Error\<close> and any other \<^verbatim>\<open>Exception\<close>.
\<close>

datatype exn = PyodbcError string | OtherException string

type_synonym handle = nat
type_synonym cursor = nat

text \<open>An entry of \<^verbatim>\<open>cursor.description\<close>: the column name first, then the type code.\<close>

type_synonym column_desc = "string \<times> nat"

text \<open>
  A cursor after \<^verbatim>\<open>execute\<close>: its \<^verbatim>\<open>description\<close> attribute (\<^verbatim>\<open>None\<close> or a list)
  and what \<^verbatim>\<open>fetchall()\<close> does.
\<close>

record executed =
  description :: "column_desc list option"
  fetchall :: "exn + pyval list list"

record driver =
  drv_connect :: "string \<Rightarrow> nat \<Rightarrow> exn + handle"
  drv_close :: "handle \<Rightarrow> exn + unit"
  drv_cursor :: "handle \<Rightarrow> exn + cursor"
  drv_execute :: "cursor \<Rightarrow> string \<Rightarrow> pyval list option \<Rightarrow> exn + executed"

datatype driver_call =
    CallConnect string nat
  | CallClose handle
  | CallCursor handle
  | CallExecute cursor string "pyval list option"
  | CallFetchall cursor

section \<open>Strings\<close>

text \<open>\<^verbatim>\<open>str(n)\<close> for a length.\<close>

definition digit_char :: "nat \<Rightarrow> char" where
  "digit_char d = ''0123456789'' ! d"

fun str_nat :: "nat \<Rightarrow> string" where
  "str_nat n = (if n < 10 then [digit_char n] else str_nat (n div 10) @ [digit_char (n mod 10)])"

declare str_nat.simps [simp del]

text \<open>\<^verbatim>\<open>sep.join(xs)\<close>.\<close>

fun join :: "string \<Rightarrow> string list \<Rightarrow> string" where
  "join sep [] = []"
| "join sep [x] = x"
| "join sep (x # y # ys) = x @ sep @ join sep (y # ys)"

text \<open>An optional string inside an f-string: \<^verbatim>\<open>None\<close> prints as \<^verbatim>\<open>None\<close>.\<close>

fun fmt_opt :: "string option \<Rightarrow> string" where
  "fmt_opt None = ''None''"
| "fmt_opt (Some s) = s"

section \<open>The data frame\<close>

text \<open>
  pandas is outside the repository. A data frame is modelled by its column names and its
  rows, and \<^verbatim>\<open>pd.DataFrame.from_records\<close> is a parameter of the model, like the driver: a
  function from the rows and the column names to the exception it raises or the frame it
  builds. \<^verbatim>\<open>pd.DataFrame()\<close> is the frame without columns and rows.
\<close>

record dataframe =
  df_columns :: "string list"
  df_rows :: "pyval list list"

type_synonym from_records_fn = "pyval list list \<Rightarrow> string list \<Rightarrow> exn + dataframe"

definition empty_dataframe :: dataframe where
  "empty_dataframe = \<lparr>df_columns = [], df_rows = []\<rparr>"

section \<open>SQLServerConnection\<close>

record manager =
  connection :: "handle option"
  is_connected :: bool

text \<open>\<^verbatim>\<open>__init__\<close>.\<close>

definition init_manager :: manager where
  "init_manager = \<lparr>connection = None, is_connected = False\<rparr>"

text \<open>The connection string of \<^verbatim>\<open>connect\<close>, lines 32 to 46.\<close>

definition connection_string :: "string \<Rightarrow> string \<Rightarrow> string \<Rightarrow> string option \<Rightarrow> string option \<Rightarrow> string" where
  "connection_string server database auth_type username password =
    (if auth_type = ''Windows''
     then ''DRIVER={ODBC Driver 17 for SQL Server};'' @ ''SERVER='' @ server @ '';''
          @ ''DATABASE='' @ database @ '';'' @ ''Trusted_Connection=yes;''
     else ''DRIVER={ODBC Driver 17 for SQL Server};'' @ ''SERVER='' @ server @ '';''
          @ ''DATABASE='' @ database @ '';'' @ ''UID='' @ fmt_opt username @ '';''
          @ ''PWD='' @ fmt_opt password @ '';'')"

text \<open>
  \<^verbatim>\<open>connect\<close>: the result pair, the manager afterwards and the driver calls made.
\<close>

definition connect :: "driver \<Rightarrow> manager \<Rightarrow> string \<Rightarrow> string \<Rightarrow> string \<Rightarrow> string option \<Rightarrow> string option
    \<Rightarrow> (bool \<times> string) \<times> manager \<times> driver_call list" where
  "connect drv self server database auth_type username password =
    (let cs = connection_string server database auth_type username password in
     case drv_connect drv cs 10 of
       Inr h \<Rightarrow> ((True, ''Connected successfully!''),
                 self\<lparr>connection := Some h, is_connected := True\<rparr>,
                 [CallConnect cs 10])
     | Inl (PyodbcError m) \<Rightarrow> ((False, ''Connection failed: '' @ m),
                 self\<lparr>is_connected := False\<rparr>,
                 [CallConnect cs 10])
     | Inl (OtherException m) \<Rightarrow> ((False, ''Unexpected error: '' @ m),
                 self\<lparr>is_connected := False\<rparr>,
                 [CallConnect cs 10]))"

text \<open>
  \<^verbatim>\<open>disconnect\<close>. The test \<^verbatim>\<open>if self.connection\<close> is on the handle, not on the flag, and
  no branch assigns \<^verbatim>\<open>self.connection\<close>. Both exception classes are caught by the one
  handler.
\<close>

fun exn_text :: "exn \<Rightarrow> string" where
  "exn_text (PyodbcError m) = m"
| "exn_text (OtherException m) = m"

definition disconnect :: "driver \<Rightarrow> manager \<Rightarrow> (bool \<times> string) \<times> manager \<times> driver_call list" where
  "disconnect drv self =
    (case connection self of
       Some h \<Rightarrow>
        (case drv_close drv h of
           Inr u \<Rightarrow> ((True, ''Disconnected successfully''), self\<lparr>is_connected := False\<rparr>, [CallClose h])
         | Inl e \<Rightarrow> ((False, ''Error disconnecting: '' @ exn_text e), self, [CallClose h]))
     | None \<Rightarrow> ((True, ''No active connection''), self, []))"

text \<open>The two handlers of \<^verbatim>\<open>execute_stored_procedure\<close>, lines 105 to 108.\<close>

fun execute_failed :: "exn \<Rightarrow> bool \<times> dataframe option \<times> string" where
  "execute_failed (PyodbcError m) = (False, None, ''SQL Error: '' @ m)"
| "execute_failed (OtherException m) = (False, None, ''Unexpected error: '' @ m)"

text \<open>
  The statement and the bound values, lines 87 to 94. A dict is a list of entries in
  insertion order; \<^verbatim>\<open>if parameters\<close> fails for \<^verbatim>\<open>None\<close> and for the empty dict.
\<close>

definition build_query :: "string \<Rightarrow> (string \<times> pyval) list option \<Rightarrow> string \<times> pyval list option" where
  "build_query procedure_name parameters =
    (case parameters of
       Some (p # ps) \<Rightarrow>
         (let param_placeholders = join '', '' (map (\<lambda>_. ''?'') (p # ps));
              param_values = map snd (p # ps)
          in (''EXEC '' @ procedure_name @ '' '' @ param_placeholders, Some param_values))
     | _ \<Rightarrow> (''EXEC '' @ procedure_name, None))"

text \<open>Line 96.\<close>

definition column_names :: "column_desc list option \<Rightarrow> string list" where
  "column_names d = (case d of Some (c # cs) \<Rightarrow> map fst (c # cs) | _ \<Rightarrow> [])"

text \<open>
  \<^verbatim>\<open>execute_stored_procedure\<close>. Every statement from line 85 to line 103 is inside the
  \<^verbatim>\<open>try\<close>, the call of \<^verbatim>\<open>from_records\<close> on line 100 too.
\<close>

definition execute_stored_procedure :: "from_records_fn \<Rightarrow> driver \<Rightarrow> manager \<Rightarrow> string
    \<Rightarrow> (string \<times> pyval) list option
    \<Rightarrow> (bool \<times> dataframe option \<times> string) \<times> driver_call list" where
  "execute_stored_procedure from_records drv self procedure_name parameters =
    (case (is_connected self, connection self) of
       (True, Some h) \<Rightarrow>
        (case drv_cursor drv h of
           Inl e \<Rightarrow> (execute_failed e, [CallCursor h])
         | Inr cur \<Rightarrow>
            (let (query, param_values) = build_query procedure_name parameters in
             case drv_execute drv cur query param_values of
               Inl e \<Rightarrow> (execute_failed e, [CallCursor h, CallExecute cur query param_values])
             | Inr ex \<Rightarrow>
                (let columns = column_names (description ex) in
                 case fetchall ex of
                   Inl e \<Rightarrow> (execute_failed e,
                       [CallCursor h, CallExecute cur query param_values, CallFetchall cur])
                 | Inr rows \<Rightarrow>
                    (if columns \<noteq> [] \<and> rows \<noteq> []
                     then
                      (case from_records rows columns of
                         Inl e \<Rightarrow> (execute_failed e,
                           [CallCursor h, CallExecute cur query param_values, CallFetchall cur])
                       | Inr df \<Rightarrow> ((True, Some df,
                            ''Procedure executed successfully. '' @ str_nat (length rows) @ '' rows returned.''),
                           [CallCursor h, CallExecute cur query param_values, CallFetchall cur]))
                     else ((True, Some empty_dataframe,
                            ''Procedure executed successfully. No data returned.''),
                           [CallCursor h, CallExecute cur query param_values, CallFetchall cur])))))
     | _ \<Rightarrow> ((False, None, ''No active database connection''), []))"

section \<open>The shell: executing a procedure\<close>

text \<open>
  The part of \<^verbatim>\<open>st.session_state\<close> that \<^verbatim>\<open>initialize_session_state\<close> creates.
\<close>

record connection_info =
  info_server :: string
  info_database :: string
  info_auth_type :: string
  info_username :: string

record session_state =
  db_connection :: manager
  connection_status :: "(bool \<times> string) option"
  last_result :: "dataframe option"
  show_connection_area :: bool
  stored_connection_info :: connection_info
  password_key :: nat

definition initial_session_state :: session_state where
  "initial_session_state =
    \<lparr>db_connection = init_manager, connection_status = None, last_result = None,
     show_connection_area = True,
     stored_connection_info = \<lparr>info_server = [], info_database = [],
       info_auth_type = ''Windows'', info_username = []\<rparr>,
     password_key = 0\<rparr>"

text \<open>
  What the widgets of \<^verbatim>\<open>render_procedure_interface\<close> return in one pass: the procedure
  name, one (name, value) pair of text inputs per parameter slot (\<^verbatim>\<open>num_params\<close> is the
  length of the list) and whether the button was clicked.
\<close>

record procedure_form =
  procedure_name_input :: string
  param_slots :: "(string \<times> string) list"
  execute_clicked :: bool

text \<open>The banners a pass shows (the pictographs of the source texts are left out).\<close>

datatype banner = Warning string | Error string | Success string

text \<open>
  The loop of lines 329 to 337, started on the empty dict. \<^verbatim>\<open>parameters[k] = v\<close> on a dict
  replaces the value of an existing key in place and appends a new key at the end, which
  is \<^const>\<open>AList.update\<close>.
\<close>

fun collect_parameters :: "(string \<times> string) list \<Rightarrow> (string \<times> pyval) list \<Rightarrow> (string \<times> pyval) list" where
  "collect_parameters [] parameters = parameters"
| "collect_parameters ((param_name, param_value) # slots) parameters =
    collect_parameters slots
      (if param_name \<noteq> [] \<and> param_value \<noteq> []
       then AList.update param_name (PyStr param_value) parameters
       else parameters)"

text \<open>The argument of line 348: \<^verbatim>\<open>parameters if parameters else None\<close>.\<close>

definition call_parameters :: "(string \<times> pyval) list \<Rightarrow> (string \<times> pyval) list option" where
  "call_parameters parameters = (if parameters \<noteq> [] then Some parameters else None)"

definition render_procedure_interface :: "from_records_fn \<Rightarrow> driver \<Rightarrow> session_state \<Rightarrow> procedure_form
    \<Rightarrow> session_state \<times> banner list \<times> driver_call list" where
  "render_procedure_interface from_records drv st form =
    (if \<not> is_connected (db_connection st)
     then (st, [Warning ''Please connect to a database first using the sidebar.''], [])
     else
      (let parameters = collect_parameters (param_slots form) [] in
       if execute_clicked form
       then
        (if procedure_name_input form = []
         then (st, [Error ''Please enter a stored procedure name''], [])
         else
          (case execute_stored_procedure from_records drv (db_connection st)
                  (procedure_name_input form) (call_parameters parameters) of
             ((success, data, message), calls) \<Rightarrow>
               if success
               then (st\<lparr>last_result := data\<rparr>, [Success message], calls)
               else (st\<lparr>last_result := None\<rparr>, [Error message], calls)))
       else (st, [], [])))"

section \<open>An example of from_records\<close>

text \<open>
  What pandas does with a non-empty list of rows of \<^verbatim>\<open>None\<close>, \<^verbatim>\<open>int\<close> and \<^verbatim>\<open>str\<close> values,
  used for the concrete examples below. The width of the data is the length of the longest
  row, shorter rows being filled with \<^verbatim>\<open>None\<close>; a width other than the number of column
  names raises a \<^verbatim>\<open>ValueError\<close>. Then each column gets a type: a column of integers keeps
  them; a column without strings that holds a number and a \<^verbatim>\<open>None\<close> becomes floating point,
  \<^verbatim>\<open>None\<close> turning into \<^verbatim>\<open>NaN\<close>; any other column keeps its objects.
\<close>

fun is_int :: "pyval \<Rightarrow> bool" where
  "is_int (PyInt n) = True"
| "is_int v = False"

fun is_str :: "pyval \<Rightarrow> bool" where
  "is_str (PyStr s) = True"
| "is_str v = False"

fun is_number :: "pyval \<Rightarrow> bool" where
  "is_number (PyInt n) = True"
| "is_number (PyFloatOfInt n) = True"
| "is_number PyNaN = True"
| "is_number v = False"

fun to_float :: "pyval \<Rightarrow> pyval" where
  "to_float (PyInt n) = PyFloatOfInt n"
| "to_float PyNone = PyNaN"
| "to_float v = v"

definition data_width :: "pyval list list \<Rightarrow> nat" where
  "data_width rows = foldr (\<lambda>row k. max (length row) k) rows 0"

definition cell :: "pyval list \<Rightarrow> nat \<Rightarrow> pyval" where
  "cell row j = (if j < length row then row ! j else PyNone)"

definition becomes_float :: "pyval list \<Rightarrow> bool" where
  "becomes_float col =
     (\<not> list_ex is_str col \<and> list_ex is_number col \<and> \<not> list_all is_int col)"

definition convert_row :: "pyval list list \<Rightarrow> nat \<Rightarrow> pyval list \<Rightarrow> pyval list" where
  "convert_row rows k row =
     map (\<lambda>j. if becomes_float (map (\<lambda>r. cell r j) rows) then to_float (cell row j) else cell row j)
       [0..<k]"

definition pandas_from_records :: from_records_fn where
  "pandas_from_records rows columns =
     (if rows = [] then Inr \<lparr>df_columns = columns, df_rows = []\<rparr>
      else if data_width rows \<noteq> length columns
      then Inl (OtherException (str_nat (length columns) @ '' columns passed, passed data had ''
                                @ str_nat (data_width rows) @ '' columns''))
      else Inr \<lparr>df_columns = columns, df_rows = map (convert_row rows (data_width rows)) rows\<rparr>)"

section \<open>Example drivers\<close>

text \<open>
  A driver on which every call succeeds and every procedure returns the columns
  \<^verbatim>\<open>id, name\<close> with the rows \<^verbatim>\<open>(1, "a"), (2, "b")\<close>, and variants of it.
\<close>

definition two_rows :: executed where
  "two_rows = \<lparr>description = Some [(''id'', 4), (''name'', 12)],
               fetchall = Inr [[PyInt 1, PyStr ''a''], [PyInt 2, PyStr ''b'']]\<rparr>"

definition good_driver :: driver where
  "good_driver = \<lparr>drv_connect = (\<lambda>cs t. Inr 1), drv_close = (\<lambda>h. Inr ()),
                  drv_cursor = (\<lambda>h. Inr 0), drv_execute = (\<lambda>c q ps. Inr two_rows)\<rparr>"

text \<open>Closing fails, as pyodbc does on a connection that is already closed.\<close>

definition close_fails_driver :: driver where
  "close_fails_driver =
     good_driver\<lparr>drv_close := (\<lambda>h. Inl (PyodbcError ''Attempt to use a closed connection.''))\<rparr>"

definition connect_fails_driver :: driver where
  "connect_fails_driver = good_driver\<lparr>drv_connect := (\<lambda>cs t. Inl (PyodbcError ''Login timeout expired''))\<rparr>"

definition connect_breaks_driver :: driver where
  "connect_breaks_driver = good_driver\<lparr>drv_connect := (\<lambda>cs t. Inl (OtherException ''bad argument''))\<rparr>"

definition execute_fails_driver :: driver where
  "execute_fails_driver =
     good_driver\<lparr>drv_execute := (\<lambda>c q ps. Inl (PyodbcError ''Could not find stored procedure''))\<rparr>"

text \<open>
  A procedure with a result set of two columns and no row; one with other columns; one
  with no result set, on which pyodbc has no description and raises in \<^verbatim>\<open>fetchall\<close>; and
  one with an integer column that holds a NULL.
\<close>

definition no_rows_driver :: driver where
  "no_rows_driver =
     good_driver\<lparr>drv_execute := (\<lambda>c q ps. Inr \<lparr>description = Some [(''id'', 4), (''name'', 12)],
                                                 fetchall = Inr []\<rparr>)\<rparr>"

definition no_rows_driver' :: driver where
  "no_rows_driver' =
     good_driver\<lparr>drv_execute := (\<lambda>c q ps. Inr \<lparr>description = Some [(''total'', 3)],
                                                 fetchall = Inr []\<rparr>)\<rparr>"

definition no_result_set_driver :: driver where
  "no_result_set_driver =
     good_driver\<lparr>drv_execute := (\<lambda>c q ps. Inr \<lparr>description = None,
         fetchall = Inl (PyodbcError ''No results.  Previous SQL was not a query.'')\<rparr>)\<rparr>"

definition nullable_driver :: driver where
  "nullable_driver =
     good_driver\<lparr>drv_execute := (\<lambda>c q ps. Inr \<lparr>description = Some [(''qty'', 4)],
                                                 fetchall = Inr [[PyInt 1], [PyNone]]\<rparr>)\<rparr>"

definition connected_manager :: manager where
  "connected_manager = \<lparr>connection = Some 1, is_connected = True\<rparr>"

text \<open>A session of the shell that is connected, and one that also holds an earlier result.\<close>

definition connected_session :: session_state where
  "connected_session = initial_session_state\<lparr>db_connection := connected_manager\<rparr>"

definition stale_session :: session_state where
  "stale_session = connected_session\<lparr>last_result := Some \<lparr>df_columns = [''id''], df_rows = [[PyInt 7]]\<rparr>\<rparr>"

lemmas drv_defs = good_driver_def close_fails_driver_def connect_fails_driver_def
  connect_breaks_driver_def execute_fails_driver_def no_rows_driver_def no_rows_driver'_def
  no_result_set_driver_def nullable_driver_def two_rows_def


section \<open>Auxiliary facts\<close>

text \<open>\<^const>\<open>str_nat\<close> writes a number in decimal: reading the digits back gives the number.\<close>

lemma digit_char_value: "d < 10 \<Longrightarrow> of_char (digit_char d) = (48 + d :: nat)"
proof -
  assume "d < 10"
  then have "d \<in> {0,1,2,3,4,5,6,7,8,9}" by auto
  then show ?thesis by (auto simp: digit_char_def)
qed

lemma str_nat_decimal:
  "foldl (\<lambda>a c. 10 * a + (of_char c - 48)) 0 (str_nat n) = n"
proof (induction n rule: str_nat.induct)
  case (1 n)
  show ?case
  proof (cases "n < 10")
    case True
    then show ?thesis by (subst str_nat.simps) (simp add: digit_char_value)
  next
    case False
    then show ?thesis using 1 by (subst str_nat.simps) (simp add: digit_char_value)
  qed
qed

text \<open>The placeholder list: one question mark per entry of the dict.\<close>

lemma placeholders_replicate: "map (\<lambda>_. ''?'') xs = replicate (length xs) ''?''"
  by (induction xs) simp_all

lemma count_placeholders:
  "count_list (join '', '' (replicate n ''?'')) CHR ''?'' = n"
proof (induction n)
  case 0
  show ?case by simp
next
  case (Suc n)
  then show ?case by (cases n) simp_all
qed

lemma build_query_nonempty:
  "ps \<noteq> [] \<Longrightarrow> build_query procedure_name (Some ps)
     = (''EXEC '' @ procedure_name @ '' '' @ join '', '' (replicate (length ps) ''?''), Some (map snd ps))"
  by (cases ps) (simp_all add: build_query_def placeholders_replicate del: replicate.simps replicate_Suc)

text \<open>What a pass of the shell asks of the driver is what \<^const>\<open>execute_stored_procedure\<close> asks.\<close>

lemma render_calls:
  assumes "is_connected (db_connection st)" and "execute_clicked form"
    and "procedure_name_input form \<noteq> []"
  shows "snd (snd (render_procedure_interface from_records drv st form))
     = snd (execute_stored_procedure from_records drv (db_connection st) (procedure_name_input form)
                 (call_parameters (collect_parameters (param_slots form) [])))"
  using assms
  by (auto simp: render_procedure_interface_def Let_def split: prod.splits)

text \<open>The dict built by the loop over the parameter slots.\<close>

lemma update_fresh: "k \<notin> fst ` set al \<Longrightarrow> AList.update k v al = al @ [(k, v)]"
  by (induction al) auto

lemma collect_map_of:
  "map_of (collect_parameters slots acc)
     = map_of acc ++ map_of (rev (map (\<lambda>(n, v). (n, PyStr v)) (filter (\<lambda>(n, v). n \<noteq> [] \<and> v \<noteq> []) slots)))"
proof (induction slots arbitrary: acc)
  case Nil
  show ?case by simp
next
  case (Cons s slots)
  obtain n v where s: "s = (n, v)" by (cases s)
  show ?case
    by (simp add: s Cons.IH update_conv' map_add_upd_left)
       (auto simp: map_add_def fun_eq_iff split: option.splits)
qed

lemma collect_distinct:
  "distinct (map fst acc) \<Longrightarrow> distinct (map fst (collect_parameters slots acc))"
proof (induction slots arbitrary: acc)
  case Nil
  then show ?case by simp
next
  case (Cons s slots)
  obtain n v where s: "s = (n, v)" by (cases s)
  show ?case using Cons.prems by (simp add: s Cons.IH distinct_update)
qed

lemma collect_distinct_names:
  "distinct (map fst (filter (\<lambda>(n, v). n \<noteq> [] \<and> v \<noteq> []) slots)) \<Longrightarrow>
   fst ` set (filter (\<lambda>(n, v). n \<noteq> [] \<and> v \<noteq> []) slots) \<inter> fst ` set acc = {} \<Longrightarrow>
   collect_parameters slots acc
     = acc @ map (\<lambda>(n, v). (n, PyStr v)) (filter (\<lambda>(n, v). n \<noteq> [] \<and> v \<noteq> []) slots)"
proof (induction slots arbitrary: acc)
  case Nil
  show ?case by simp
next
  case (Cons s slots)
  obtain n v where s: "s = (n, v)" by (cases s)
  show ?case
  proof (cases "n \<noteq> [] \<and> v \<noteq> []")
    case False
    then show ?thesis using Cons by (auto simp: s)
  next
    case True
    have fresh: "n \<notin> fst ` set acc" using Cons.prems(2) True by (auto simp: s)
    have d: "distinct (map fst (filter (\<lambda>(n, v). n \<noteq> [] \<and> v \<noteq> []) slots))"
      using Cons.prems(1) True by (simp add: s)
    have nin: "n \<notin> fst ` set (filter (\<lambda>(n, v). n \<noteq> [] \<and> v \<noteq> []) slots)"
      using Cons.prems(1) True by (simp add: s)
    have disj: "fst ` set (filter (\<lambda>(n, v). n \<noteq> [] \<and> v \<noteq> []) slots) \<inter> fst ` set (acc @ [(n, PyStr v)]) = {}"
      using Cons.prems(2) nin True by (auto simp: s)
    show ?thesis
      using True Cons.IH [OF d disj] by (simp add: s update_fresh [OF fresh])
  qed
qed

text \<open>The calls \<^const>\<open>execute_stored_procedure\<close> makes once it has a cursor.\<close>

lemma execute_calls_prefix:
  assumes "is_connected self" and "connection self = Some h" and "drv_cursor drv h = Inr cur"
  shows "take 2 (snd (execute_stored_procedure from_records drv self procedure_name parameters))
     = [CallCursor h, CallExecute cur (fst (build_query procedure_name parameters))
                                     (snd (build_query procedure_name parameters))]"
  using assms
  by (auto simp: execute_stored_procedure_def Let_def split: prod.splits sum.splits)

lemma build_query_values:
  "snd (build_query procedure_name (call_parameters ps)) = (if ps = [] then None else Some (map snd ps))"
  by (cases ps) (simp_all add: build_query_def call_parameters_def)

text \<open>
  When \<^verbatim>\<open>fetchall\<close> returns and there is no row or no column name, the answer is the empty
  frame.
\<close>

lemma execute_empty_result:
  assumes "is_connected self" and "connection self = Some h"
    and "drv_cursor drv h = Inr cur"
    and "build_query procedure_name parameters = (query, param_values)"
    and "drv_execute drv cur query param_values = Inr ex"
    and "fetchall ex = Inr rows"
    and "rows = [] \<or> description ex = None \<or> description ex = Some []"
  shows "fst (execute_stored_procedure from_records drv self procedure_name parameters)
         = (True, Some \<lparr>df_columns = [], df_rows = []\<rparr>,
            ''Procedure executed successfully. No data returned.'')"
proof -
  from assms(7) have "rows = [] \<or> column_names (description ex) = []"
    by (auto simp: column_names_def)
  then show ?thesis
    using assms(1-6)
    by (auto simp: execute_stored_procedure_def empty_dataframe_def)
qed

text \<open>A slot with an empty name or an empty value leaves the dict as it is.\<close>

lemma collect_filter:
  "collect_parameters (filter (\<lambda>(n, v). n \<noteq> [] \<and> v \<noteq> []) slots) acc = collect_parameters slots acc"
proof (induction slots arbitrary: acc)
  case Nil
  show ?case by simp
next
  case (Cons s slots)
  obtain n v where s: "s = (n, v)" by (cases s)
  show ?case by (simp add: s Cons.IH)
qed

text \<open>
  The example of \<^verbatim>\<open>from_records\<close> keeps rows of integers and strings as they are, when
  each row has one value per column name.
\<close>

lemma data_width_uniform:
  "rows \<noteq> [] \<Longrightarrow> \<forall>r\<in>set rows. length r = n \<Longrightarrow> data_width rows = n"
proof (induction rows)
  case Nil
  then show ?case by simp
next
  case (Cons r rows)
  show ?case
  proof (cases "rows = []")
    case True
    then show ?thesis using Cons.prems by (simp add: data_width_def)
  next
    case False
    then have "data_width rows = n" using Cons by simp
    then show ?thesis using Cons.prems by (simp add: data_width_def)
  qed
qed

lemma int_or_str_stays:
  "\<forall>v\<in>set col. is_int v \<or> is_str v \<Longrightarrow> \<not> becomes_float col"
  by (auto simp: becomes_float_def list_ex_iff list_all_iff)

lemma pandas_keeps_rows:
  assumes "rows \<noteq> []"
    and "\<forall>r\<in>set rows. length r = length columns \<and> (\<forall>v\<in>set r. is_int v \<or> is_str v)"
  shows "pandas_from_records rows columns = Inr \<lparr>df_columns = columns, df_rows = rows\<rparr>"
proof -
  have w: "data_width rows = length columns"
    using assms by (intro data_width_uniform) auto
  have stay: "\<not> becomes_float (map (\<lambda>r. cell r j) rows)" if "j < length columns" for j
  proof (rule int_or_str_stays, rule ballI)
    fix v assume "v \<in> set (map (\<lambda>r. cell r j) rows)"
    then obtain r where r: "r \<in> set rows" and v: "v = cell r j" by auto
    from r assms(2) that have "j < length r" by simp
    then have "v \<in> set r" using v by (simp add: cell_def)
    then show "is_int v \<or> is_str v" using r assms(2) by blast
  qed
  have row: "convert_row rows (length columns) r = r" if "r \<in> set rows" for r
  proof -
    from that assms(2) have len: "length r = length columns" by simp
    have "convert_row rows (length columns) r = map (\<lambda>j. cell r j) [0..<length columns]"
      unfolding convert_row_def by (rule map_cong) (simp_all add: stay)
    also have "\<dots> = map ((!) r) [0..<length r]"
      unfolding len by (rule map_cong) (simp_all add: cell_def len)
    also have "\<dots> = r" by (rule map_nth)
    finally show ?thesis .
  qed
  have "map (convert_row rows (length columns)) rows = rows"
    by (rule map_idI) (rule row)
  then show ?thesis using assms(1) w by (simp add: pandas_from_records_def)
qed

lemma pandas_two_rows:
  "pandas_from_records [[PyInt 1, PyStr ''a''], [PyInt 2, PyStr ''b'']] [''id'', ''name'']
     = Inr \<lparr>df_columns = [''id'', ''name''],
            df_rows = [[PyInt 1, PyStr ''a''], [PyInt 2, PyStr ''b'']]\<rparr>"
  by (rule pandas_keeps_rows) simp_all

section \<open>Properties of the connection manager\<close>

text \<open>
  C1. Whatever the procedure name and the parameters, \<^verbatim>\<open>execute_stored_procedure\<close> on a
  manager that is not connected (the flag is off, or there is no handle) returns
  \<^verbatim>\<open>(False, None, "No active database connection")\<close> and makes no driver call.
\<close>

theorem execute_not_connected:
  assumes "\<not> is_connected self \<or> connection self = None"
  shows "execute_stored_procedure from_records drv self procedure_name parameters
         = ((False, None, ''No active database connection''), [])"
  using assms by (auto simp: execute_stored_procedure_def split: bool.splits option.splits)

theorem execute_not_connected_witness:
  "\<not> is_connected init_manager \<and> connection init_manager = None
   \<and> execute_stored_procedure pandas_from_records good_driver init_manager ''sp_GetEmployees'' (Some [(''dept'', PyStr ''7'')])
       = ((False, None, ''No active database connection''), [])
   \<and> \<not> is_connected (connected_manager\<lparr>is_connected := False\<rparr>)
   \<and> execute_stored_procedure pandas_from_records good_driver (connected_manager\<lparr>is_connected := False\<rparr>) ''sp_GetEmployees'' None
       = ((False, None, ''No active database connection''), [])"
proof -
  have a: "\<not> is_connected init_manager \<or> connection init_manager = None"
    by (simp add: init_manager_def)
  have b: "\<not> is_connected (connected_manager\<lparr>is_connected := False\<rparr>)
           \<or> connection (connected_manager\<lparr>is_connected := False\<rparr>) = None"
    by simp
  show ?thesis
    using execute_not_connected [OF a, of pandas_from_records good_driver "''sp_GetEmployees''" "Some [(''dept'', PyStr ''7'')]"]
      execute_not_connected [OF b, of pandas_from_records good_driver "''sp_GetEmployees''" None]
    by (simp add: init_manager_def)
qed

text \<open>
  C2. After a successful \<^verbatim>\<open>connect\<close> and a successful \<^verbatim>\<open>disconnect\<close> the flag
  \<^verbatim>\<open>is_connected\<close> is off, but the manager still holds the handle, so a further
  \<^verbatim>\<open>disconnect\<close> takes the first branch again: it calls \<^verbatim>\<open>close\<close> on the closed handle and
  returns \<^verbatim>\<open>(True, "Disconnected successfully")\<close> when that call returns and
  \<^verbatim>\<open>(False, "Error disconnecting: ...")\<close> when it raises; the result
  \<^verbatim>\<open>(True, "No active connection")\<close> is not reached.
\<close>

theorem disconnect_twice_closes_again:
  "(case connect good_driver init_manager ''localhost'' ''Sales'' ''Windows'' None None of
      (r1, m1, c1) \<Rightarrow>
        (case disconnect good_driver m1 of
           (r2, m2, c2) \<Rightarrow>
             r1 = (True, ''Connected successfully!'')
             \<and> r2 = (True, ''Disconnected successfully'')
             \<and> \<not> is_connected m2
             \<and> connection m2 = Some 1
             \<and> disconnect good_driver m2 = ((True, ''Disconnected successfully''), m2, [CallClose 1])
             \<and> disconnect close_fails_driver m2
                 = ((False, ''Error disconnecting: Attempt to use a closed connection.''), m2, [CallClose 1])))"
  by (simp add: connect_def disconnect_def init_manager_def drv_defs)




text \<open>
  C7. When opening the driver connection fails, \<^verbatim>\<open>connect\<close> returns \<^verbatim>\<open>False\<close> with a
  message and leaves \<^verbatim>\<open>is_connected\<close> off: a \<^verbatim>\<open>pyodbc.Error\<close> gives
  \<^verbatim>\<open>"Connection failed: "\<close> followed by the driver's text, any other exception gives
  \<^verbatim>\<open>"Unexpected error: "\<close> followed by its text. In both cases \<^verbatim>\<open>connect\<close> returns.
\<close>

theorem connect_failure:
  assumes "drv_connect drv (connection_string server database auth_type username password) 10 = Inl e"
  shows "fst (connect drv self server database auth_type username password)
           = (False, (case e of PyodbcError m \<Rightarrow> ''Connection failed: '' @ m
                              | OtherException m \<Rightarrow> ''Unexpected error: '' @ m))
         \<and> \<not> is_connected (fst (snd (connect drv self server database auth_type username password)))"
  using assms by (simp add: connect_def split: exn.splits)

theorem connect_failure_witness:
  "drv_connect connect_fails_driver
       (connection_string ''localhost'' ''Sales'' ''SQL Server'' (Some ''sa'') (Some ''pw'')) 10
     = Inl (PyodbcError ''Login timeout expired'')
   \<and> fst (connect connect_fails_driver connected_manager
             ''localhost'' ''Sales'' ''SQL Server'' (Some ''sa'') (Some ''pw''))
       = (False, ''Connection failed: Login timeout expired'')
   \<and> \<not> is_connected (fst (snd (connect connect_fails_driver connected_manager
             ''localhost'' ''Sales'' ''SQL Server'' (Some ''sa'') (Some ''pw''))))
   \<and> fst (connect connect_breaks_driver init_manager ''localhost'' ''Sales'' ''Windows'' None None)
       = (False, ''Unexpected error: bad argument'')
   \<and> \<not> is_connected (fst (snd (connect connect_breaks_driver init_manager
             ''localhost'' ''Sales'' ''Windows'' None None)))"
proof -
  have a: "drv_connect connect_fails_driver
       (connection_string ''localhost'' ''Sales'' ''SQL Server'' (Some ''sa'') (Some ''pw'')) 10
     = Inl (PyodbcError ''Login timeout expired'')"
    by (simp add: drv_defs)
  have b: "drv_connect connect_breaks_driver
       (connection_string ''localhost'' ''Sales'' ''Windows'' None None) 10
     = Inl (OtherException ''bad argument'')"
    by (simp add: drv_defs)
  show ?thesis
    using a connect_failure [OF a, of connected_manager] connect_failure [OF b, of init_manager]
    by simp
qed




text \<open>
  C5. The claim covers a procedure that returns no result set. For such a procedure
  \<^verbatim>\<open>cursor.description\<close> is \<^verbatim>\<open>None\<close>, which line 96 allows for, but line 97 calls
  \<^verbatim>\<open>fetchall\<close> all the same and pyodbc raises there: the answer is \<^verbatim>\<open>False\<close>, \<^verbatim>\<open>None\<close> and
  \<^verbatim>\<open>"SQL Error: ..."\<close>, not \<^verbatim>\<open>True\<close>, the empty frame and
  \<^verbatim>\<open>"Procedure executed successfully. No data returned."\<close>.
\<close>

theorem execute_no_result_set_fails:
  "description \<lparr>description = None,
       fetchall = Inl (PyodbcError ''No results.  Previous SQL was not a query.'')\<rparr> = None
   \<and> drv_execute no_result_set_driver 0 ''EXEC sp_Purge'' None
       = Inr \<lparr>description = None,
              fetchall = Inl (PyodbcError ''No results.  Previous SQL was not a query.'')\<rparr>
   \<and> execute_stored_procedure pandas_from_records no_result_set_driver connected_manager ''sp_Purge'' None
       = ((False, None, ''SQL Error: No results.  Previous SQL was not a query.''),
          [CallCursor 1, CallExecute 0 ''EXEC sp_Purge'' None, CallFetchall 0])"
  by (simp add: execute_stored_procedure_def build_query_def column_names_def
      connected_manager_def drv_defs)

text \<open>
  C10. When a connected execution succeeds with column metadata but no row, the data
  frame returned is the empty one, without column names; the whole answer is the same as
  for a procedure with any other columns and no row, so the caller cannot recover the
  columns from it.
\<close>

theorem execute_no_rows_forgets_columns:
  assumes "is_connected self" and "connection self = Some h"
    and "drv_cursor drv h = Inr cur" and "drv_cursor drv' h = Inr cur"
    and "build_query procedure_name parameters = (query, param_values)"
    and "drv_execute drv cur query param_values = Inr ex"
    and "drv_execute drv' cur query param_values = Inr ex'"
    and "description ex = Some d" and "d \<noteq> []"
    and "fetchall ex = Inr []" and "fetchall ex' = Inr []"
  shows "fst (execute_stored_procedure from_records drv self procedure_name parameters)
           = (True, Some \<lparr>df_columns = [], df_rows = []\<rparr>,
              ''Procedure executed successfully. No data returned.'')
         \<and> execute_stored_procedure from_records drv' self procedure_name parameters
           = execute_stored_procedure from_records drv self procedure_name parameters"
  using assms(1-7,10,11)
  by (simp add: execute_stored_procedure_def empty_dataframe_def)

theorem execute_no_rows_forgets_columns_witness:
  "is_connected connected_manager \<and> connection connected_manager = Some 1
   \<and> drv_cursor no_rows_driver 1 = Inr 0 \<and> drv_cursor no_rows_driver' 1 = Inr 0
   \<and> build_query ''sp_Report'' None = (''EXEC sp_Report'', None)
   \<and> drv_execute no_rows_driver 0 ''EXEC sp_Report'' None
       = Inr \<lparr>description = Some [(''id'', 4), (''name'', 12)], fetchall = Inr []\<rparr>
   \<and> drv_execute no_rows_driver' 0 ''EXEC sp_Report'' None
       = Inr \<lparr>description = Some [(''total'', 3)], fetchall = Inr []\<rparr>
   \<and> fst (execute_stored_procedure pandas_from_records no_rows_driver connected_manager ''sp_Report'' None)
       = (True, Some \<lparr>df_columns = [], df_rows = []\<rparr>,
          ''Procedure executed successfully. No data returned.'')
   \<and> execute_stored_procedure pandas_from_records no_rows_driver' connected_manager ''sp_Report'' None
       = execute_stored_procedure pandas_from_records no_rows_driver connected_manager ''sp_Report'' None"
proof -
  have a: "is_connected connected_manager" and b: "connection connected_manager = Some 1"
    by (simp_all add: connected_manager_def)
  have c: "drv_cursor no_rows_driver 1 = Inr 0" and c': "drv_cursor no_rows_driver' 1 = Inr 0"
    by (simp_all add: drv_defs)
  have q: "build_query ''sp_Report'' None = (''EXEC sp_Report'', None)"
    by (simp add: build_query_def)
  have e: "drv_execute no_rows_driver 0 ''EXEC sp_Report'' None
       = Inr \<lparr>description = Some [(''id'', 4), (''name'', 12)], fetchall = Inr []\<rparr>"
    and e': "drv_execute no_rows_driver' 0 ''EXEC sp_Report'' None
       = Inr \<lparr>description = Some [(''total'', 3)], fetchall = Inr []\<rparr>"
    by (simp_all add: drv_defs)
  show ?thesis
    using a b c c' q e e' execute_no_rows_forgets_columns [where from_records = pandas_from_records, OF a b c c' q e e']
    by simp
qed

text \<open>
  C6. For every procedure name and every non-empty parameter dict, the statement given to
  the driver is \<^verbatim>\<open>"EXEC " + name + " " + placeholders\<close>, where the placeholders are as many
  question marks as there are parameters, separated by \<^verbatim>\<open>", "\<close>; the values go to the driver
  as a separate list, in the order of the dict. The statement text is built from the name
  and the number of parameters only: no value occurs in its construction.
\<close>

theorem execute_binds_values:
  assumes "is_connected self" and "connection self = Some h"
    and "drv_cursor drv h = Inr cur" and "ps \<noteq> []"
  shows "(let stmt = ''EXEC '' @ procedure_name @ '' '' @ join '', '' (replicate (length ps) ''?'');
              calls = snd (execute_stored_procedure from_records drv self procedure_name (Some ps))
          in (calls = [CallCursor h, CallExecute cur stmt (Some (map snd ps))]
              \<or> calls = [CallCursor h, CallExecute cur stmt (Some (map snd ps)), CallFetchall cur]))
         \<and> count_list (join '', '' (replicate (length ps) ''?'')) CHR ''?'' = length ps"
  using assms build_query_nonempty [OF assms(4), of procedure_name]
  by (auto simp: execute_stored_procedure_def Let_def count_placeholders split: sum.splits)

theorem execute_binds_values_witness:
  "is_connected connected_manager \<and> connection connected_manager = Some 1
   \<and> drv_cursor good_driver 1 = Inr 0
   \<and> [(''dept'', PyStr ''7''), (''name'', PyStr ''x; DROP TABLE t'')] \<noteq> []
   \<and> snd (execute_stored_procedure pandas_from_records good_driver connected_manager ''sp_Find''
            (Some [(''dept'', PyStr ''7''), (''name'', PyStr ''x; DROP TABLE t'')]))
       = [CallCursor 1,
          CallExecute 0 ''EXEC sp_Find ?, ?'' (Some [PyStr ''7'', PyStr ''x; DROP TABLE t'']),
          CallFetchall 0]
   \<and> count_list ''?, ?'' CHR ''?'' = 2"
proof -
  have a: "is_connected connected_manager" and b: "connection connected_manager = Some 1"
    by (simp_all add: connected_manager_def)
  have c: "drv_cursor good_driver 1 = Inr 0" by (simp add: drv_defs)
  have d: "[(''dept'', PyStr ''7''), (''name'', PyStr ''x; DROP TABLE t'')] \<noteq> []" by simp
  have g: "snd (execute_stored_procedure pandas_from_records good_driver connected_manager ''sp_Find''
            (Some [(''dept'', PyStr ''7''), (''name'', PyStr ''x; DROP TABLE t'')]))
       = [CallCursor 1,
          CallExecute 0 ''EXEC sp_Find ?, ?'' (Some [PyStr ''7'', PyStr ''x; DROP TABLE t'']),
          CallFetchall 0]"
    by (simp add: execute_stored_procedure_def build_query_def column_names_def
        connected_manager_def drv_defs pandas_two_rows)
  show ?thesis
    using a b c g execute_binds_values [where from_records = pandas_from_records
        and procedure_name = "''sp_Find''", OF a b c d] by simp
qed

section \<open>Properties of the shell\<close>

text \<open>
  C8. When the button is clicked with a procedure name and \<^verbatim>\<open>execute_stored_procedure\<close>
  returns \<^verbatim>\<open>False\<close>, the shell sets \<^verbatim>\<open>last_result\<close> to \<^verbatim>\<open>None\<close>: no earlier result is kept
  next to the failure message.
\<close>

theorem failed_execution_clears_last_result:
  assumes "is_connected (db_connection st)" and "execute_clicked form"
    and "procedure_name_input form \<noteq> []"
    and "\<not> fst (fst (execute_stored_procedure from_records drv (db_connection st) (procedure_name_input form)
                 (call_parameters (collect_parameters (param_slots form) []))))"
  shows "last_result (fst (render_procedure_interface from_records drv st form)) = None"
  using assms
  by (auto simp: render_procedure_interface_def Let_def split: prod.splits)

theorem failed_execution_clears_last_result_witness:
  "is_connected (db_connection stale_session)
   \<and> last_result stale_session = Some \<lparr>df_columns = [''id''], df_rows = [[PyInt 7]]\<rparr>
   \<and> fst (execute_stored_procedure pandas_from_records execute_fails_driver (db_connection stale_session) ''sp_Missing'' None)
       = (False, None, ''SQL Error: Could not find stored procedure'')
   \<and> last_result (fst (render_procedure_interface pandas_from_records execute_fails_driver stale_session
         \<lparr>procedure_name_input = ''sp_Missing'', param_slots = [], execute_clicked = True\<rparr>)) = None"
proof -
  let ?form = "\<lparr>procedure_name_input = ''sp_Missing'', param_slots = [], execute_clicked = True\<rparr>"
  have s: "db_connection stale_session = connected_manager"
    by (simp add: stale_session_def connected_session_def)
  have a: "is_connected (db_connection stale_session)"
    by (simp add: s connected_manager_def)
  have b: "execute_clicked ?form" and c: "procedure_name_input ?form \<noteq> []" by simp_all
  have r: "execute_stored_procedure pandas_from_records execute_fails_driver connected_manager ''sp_Missing'' None
       = ((False, None, ''SQL Error: Could not find stored procedure''),
          [CallCursor 1, CallExecute 0 ''EXEC sp_Missing'' None])"
    by (simp add: execute_stored_procedure_def build_query_def connected_manager_def drv_defs)
  have d: "\<not> fst (fst (execute_stored_procedure pandas_from_records execute_fails_driver (db_connection stale_session)
                 (procedure_name_input ?form)
                 (call_parameters (collect_parameters (param_slots ?form) []))))"
    by (simp add: s r call_parameters_def)
  have l: "last_result stale_session = Some \<lparr>df_columns = [''id''], df_rows = [[PyInt 7]]\<rparr>"
    by (simp add: stale_session_def)
  show ?thesis
    using a l failed_execution_clears_last_result [OF a b c d] by (simp add: s r)
qed

text \<open>
  C9, as stated: a parameter slot is part of the call exactly when its name and its value
  are both non-empty. This fails when two such slots carry the same name: the dict keeps
  one entry for the name, with the value of the later slot, and the earlier slot's value
  does not reach the driver.
\<close>

theorem collect_parameters_counterexample:
  "(''a'', ''1'') \<in> set [(''a'', ''1''), (''a'', ''2'')] \<and> ''a'' \<noteq> [] \<and> ''1'' \<noteq> []
   \<and> collect_parameters [(''a'', ''1''), (''a'', ''2'')] [] = [(''a'', PyStr ''2'')]
   \<and> snd (snd (render_procedure_interface pandas_from_records good_driver connected_session
        \<lparr>procedure_name_input = ''sp_X'', param_slots = [(''a'', ''1''), (''a'', ''2'')],
         execute_clicked = True\<rparr>))
       = [CallCursor 1, CallExecute 0 ''EXEC sp_X ?'' (Some [PyStr ''2'']), CallFetchall 0]"
  by (simp add: render_procedure_interface_def execute_stored_procedure_def build_query_def
      call_parameters_def connected_session_def initial_session_state_def connected_manager_def
      column_names_def drv_defs pandas_two_rows)

text \<open>
  C9, amended: a slot whose name or value is empty has no effect on the pass: it raises no
  error, and the state, the banners and the driver calls are those of the pass without it.
  When the button is clicked with a procedure name on a connected manager, the dict given
  to \<^verbatim>\<open>execute_stored_procedure\<close> binds each name among the slots with both fields non-empty
  once, to the value of the last such slot with that name; when these names are pairwise
  distinct it holds exactly these slots, in slot order. The statement the driver then
  receives carries the values of that dict, in its order, or no value list when the dict
  is empty.
\<close>

theorem render_passes_complete_slots:
  assumes "is_connected (db_connection st)" and "connection (db_connection st) = Some h"
    and "drv_cursor drv h = Inr cur"
    and "execute_clicked form" and "procedure_name_input form \<noteq> []"
  shows "render_procedure_interface from_records drv st form
           = render_procedure_interface from_records drv st
               (form\<lparr>param_slots := filter (\<lambda>(n, v). n \<noteq> [] \<and> v \<noteq> []) (param_slots form)\<rparr>)
         \<and> (let complete = filter (\<lambda>(n, v). n \<noteq> [] \<and> v \<noteq> []) (param_slots form);
                 ps = collect_parameters (param_slots form) [];
                 calls = snd (snd (render_procedure_interface from_records drv st form))
             in map_of ps = map_of (rev (map (\<lambda>(n, v). (n, PyStr v)) complete))
                \<and> distinct (map fst ps)
                \<and> (distinct (map fst complete) \<longrightarrow> ps = map (\<lambda>(n, v). (n, PyStr v)) complete)
                \<and> take 2 calls
                    = [CallCursor h,
                       CallExecute cur (fst (build_query (procedure_name_input form) (call_parameters ps)))
                         (if ps = [] then None else Some (map snd ps))])"
proof -
  have same: "render_procedure_interface from_records drv st form
           = render_procedure_interface from_records drv st
               (form\<lparr>param_slots := filter (\<lambda>(n, v). n \<noteq> [] \<and> v \<noteq> []) (param_slots form)\<rparr>)"
    by (simp add: render_procedure_interface_def collect_filter)
  have calls: "take 2 (snd (snd (render_procedure_interface from_records drv st form)))
      = [CallCursor h,
         CallExecute cur (fst (build_query (procedure_name_input form)
                                 (call_parameters (collect_parameters (param_slots form) []))))
           (if collect_parameters (param_slots form) [] = [] then None
            else Some (map snd (collect_parameters (param_slots form) [])))]"
    using render_calls [OF assms(1,4,5), of from_records drv]
      execute_calls_prefix [OF assms(1-3), of from_records "procedure_name_input form"
        "call_parameters (collect_parameters (param_slots form) [])"]
    by (simp add: build_query_values)
  show ?thesis
    using same calls collect_map_of [of "param_slots form" "[]"]
      collect_distinct [of "[]" "param_slots form"]
      collect_distinct_names [of "param_slots form" "[]"]
    by (simp add: Let_def)
qed

theorem render_passes_complete_slots_witness:
  "is_connected (db_connection connected_session)
   \<and> connection (db_connection connected_session) = Some 1
   \<and> drv_cursor good_driver 1 = Inr 0
   \<and> distinct (map fst (filter (\<lambda>(n, v). n \<noteq> [] \<and> v \<noteq> [])
       [(''a'', ''1''), (''b'', ''''), ('''', ''3''), (''c'', ''4'')]))
   \<and> collect_parameters [(''a'', ''1''), (''b'', ''''), ('''', ''3''), (''c'', ''4'')] []
       = [(''a'', PyStr ''1''), (''c'', PyStr ''4'')]
   \<and> render_procedure_interface pandas_from_records good_driver connected_session
        \<lparr>procedure_name_input = ''sp_X'',
         param_slots = [(''a'', ''1''), (''b'', ''''), ('''', ''3''), (''c'', ''4'')],
         execute_clicked = True\<rparr>
       = render_procedure_interface pandas_from_records good_driver connected_session
        \<lparr>procedure_name_input = ''sp_X'', param_slots = [(''a'', ''1''), (''c'', ''4'')],
         execute_clicked = True\<rparr>
   \<and> take 2 (snd (snd (render_procedure_interface pandas_from_records good_driver connected_session
        \<lparr>procedure_name_input = ''sp_X'',
         param_slots = [(''a'', ''1''), (''b'', ''''), ('''', ''3''), (''c'', ''4'')],
         execute_clicked = True\<rparr>)))
       = [CallCursor 1, CallExecute 0 ''EXEC sp_X ?, ?'' (Some [PyStr ''1'', PyStr ''4''])]"
proof -
  let ?form = "\<lparr>procedure_name_input = ''sp_X'',
         param_slots = [(''a'', ''1''), (''b'', ''''), ('''', ''3''), (''c'', ''4'')],
         execute_clicked = True\<rparr>"
  have s: "db_connection connected_session = connected_manager"
    by (simp add: connected_session_def)
  have a: "is_connected (db_connection connected_session)"
    and b: "connection (db_connection connected_session) = Some 1"
    by (simp_all add: s connected_manager_def)
  have c: "drv_cursor good_driver 1 = Inr 0" by (simp add: drv_defs)
  have k: "execute_clicked ?form" and n: "procedure_name_input ?form \<noteq> []" by simp_all
  note slots = render_passes_complete_slots [where from_records = pandas_from_records, OF a b c k n]
  have d: "distinct (map fst (filter (\<lambda>(n, v). n \<noteq> [] \<and> v \<noteq> [])
       [(''a'', ''1''), (''b'', ''''), ('''', ''3''), (''c'', ''4'')]))"
    by simp
  have cp: "collect_parameters [(''a'', ''1''), (''b'', ''''), ('''', ''3''), (''c'', ''4'')] []
       = [(''a'', PyStr ''1''), (''c'', PyStr ''4'')]"
    by simp
  have q: "build_query ''sp_X'' (call_parameters [(''a'', PyStr ''1''), (''c'', PyStr ''4'')])
       = (''EXEC sp_X ?, ?'', Some [PyStr ''1'', PyStr ''4''])"
    by (simp add: build_query_def call_parameters_def)
  have same: "render_procedure_interface pandas_from_records good_driver connected_session ?form
       = render_procedure_interface pandas_from_records good_driver connected_session
        \<lparr>procedure_name_input = ''sp_X'', param_slots = [(''a'', ''1''), (''c'', ''4'')],
         execute_clicked = True\<rparr>"
    using slots [THEN conjunct1] by simp
  have calls: "take 2 (snd (snd (render_procedure_interface pandas_from_records good_driver
         connected_session ?form)))
       = [CallCursor 1, CallExecute 0 ''EXEC sp_X ?, ?'' (Some [PyStr ''1'', PyStr ''4''])]"
    using slots [THEN conjunct2] by (simp add: Let_def q)
  from slots show ?thesis by (intro conjI a b c d cp same calls)
qed

end
